theory Spec2Isabelle
  imports Complex_Main "HOL-Library.Log_Nat"
begin

section \<open>Errors and dates\<close>

text \<open>
  The program is a Python script (\<^verbatim>\<open>Meet.py\<close>). Every exception that the modelled
  code can raise is a value of \<open>error\<close>; a computation that may raise returns
  \<open>error + 'a\<close> with \<open>Inl\<close> for the exception. \<open>FetchError\<close> stands for any exception
  raised by the price data source.
\<close>

datatype error = ValueError | TypeError | OverflowError | AttributeError
  | ZeroDivisionError | FetchError

text \<open>
  A \<^verbatim>\<open>datetime\<close> at midnight is modelled by its proleptic Gregorian ordinal
  (\<^verbatim>\<open>date.toordinal()\<close>): day 1 is 0001-01-01 and the largest date, 9999-12-31, is
  day 3652059. The calendar functions follow \<^verbatim>\<open>datetime.py\<close> of the standard library.
\<close>

definition is_leap :: "nat \<Rightarrow> bool" where
  "is_leap y = (y mod 4 = 0 \<and> (y mod 100 \<noteq> 0 \<or> y mod 400 = 0))"

definition days_in_month :: "nat \<Rightarrow> nat \<Rightarrow> nat" where
  "days_in_month y m =
     (if m = 2 then (if is_leap y then 29 else 28)
      else if m = 4 \<or> m = 6 \<or> m = 9 \<or> m = 11 then 30 else 31)"

definition days_before_year :: "nat \<Rightarrow> nat" where
  "days_before_year y = (y - 1) * 365 + (y - 1) div 4 - (y - 1) div 100 + (y - 1) div 400"

definition days_before_month :: "nat \<Rightarrow> nat \<Rightarrow> nat" where
  "days_before_month y m =
     [0, 0, 31, 59, 90, 120, 151, 181, 212, 243, 273, 304, 334] ! m
       + (if m > 2 \<and> is_leap y then 1 else 0)"

definition ymd2ord :: "nat \<Rightarrow> nat \<Rightarrow> nat \<Rightarrow> int" where
  "ymd2ord y m d = int (days_before_year y + days_before_month y m + d)"

definition min_ordinal :: int where
  "min_ordinal = 1"

definition max_ordinal :: int where
  "max_ordinal = 3652059"

text \<open>
  The constructor of \<^verbatim>\<open>datetime\<close> raises ValueError unless the year is in 1..9999, the
  month in 1..12 and the day in 1..days_in_month.
\<close>

definition make_date :: "nat \<Rightarrow> nat \<Rightarrow> nat \<Rightarrow> error + int" where
  "make_date y m d =
     (if 1 \<le> y \<and> y \<le> 9999 \<and> 1 \<le> m \<and> m \<le> 12 \<and> 1 \<le> d \<and> d \<le> days_in_month y m
      then Inr (ymd2ord y m d) else Inl ValueError)"

text \<open>
  \<^verbatim>\<open>date + timedelta(days=n)\<close>: OverflowError when the result leaves the range of dates.
\<close>

definition add_days :: "int \<Rightarrow> int \<Rightarrow> error + int" where
  "add_days d n =
     (if min_ordinal \<le> d + n \<and> d + n \<le> max_ordinal then Inr (d + n) else Inl OverflowError)"

section \<open>strptime\<close>

text \<open>
  \<^verbatim>\<open>datetime.strptime\<close> turns the format into a regular expression, matches it at the
  start of the string with the backtracking matcher, and raises ValueError when there is
  no match, when the match does not reach the end of the string, or when the fields are
  not a date. The directives used by the program are
  \<^verbatim>\<open>%d = 3[0-1]|[1-2]\d|0[1-9]|[1-9]| [1-9]\<close>,
  \<^verbatim>\<open>%m = 1[0-2]|0[1-9]|[1-9]\<close> and \<^verbatim>\<open>%Y = \d\d\d\d\<close>.
  A matcher returns every way to match a prefix, in the order the backtracking matcher
  tries them, as pairs of the field's value and the rest of the string.
  Characters are the code points below 256, where the decimal digits are 0..9 only.
\<close>

datatype directive = Day | Month | Year | Lit char

definition digit_of :: "char \<Rightarrow> nat option" where
  "digit_of c =
     (let n = (of_char c :: nat) in if 48 \<le> n \<and> n \<le> 57 then Some (n - 48) else None)"

definition two_chars :: "(nat \<Rightarrow> nat \<Rightarrow> bool) \<Rightarrow> string \<Rightarrow> (nat \<times> string) list" where
  "two_chars ok s =
     (case s of
        a # b # r \<Rightarrow>
          (case (digit_of a, digit_of b) of
             (Some x, Some y) \<Rightarrow> if ok x y then [(10 * x + y, r)] else []
           | _ \<Rightarrow> [])
      | _ \<Rightarrow> [])"

definition one_char :: "string \<Rightarrow> (nat \<times> string) list" where
  "one_char s =
     (case s of
        a # r \<Rightarrow> (case digit_of a of Some x \<Rightarrow> if 1 \<le> x then [(x, r)] else [] | None \<Rightarrow> [])
      | _ \<Rightarrow> [])"

definition space_char :: "string \<Rightarrow> (nat \<times> string) list" where
  "space_char s =
     (case s of
        a # b # r \<Rightarrow>
          (if a = CHR '' '' then
             (case digit_of b of Some y \<Rightarrow> if 1 \<le> y then [(y, r)] else [] | None \<Rightarrow> [])
           else [])
      | _ \<Rightarrow> [])"

definition four_digits :: "string \<Rightarrow> (nat \<times> string) list" where
  "four_digits s =
     (case s of
        a # b # c # d # r \<Rightarrow>
          (case (digit_of a, digit_of b, digit_of c, digit_of d) of
             (Some w, Some x, Some y, Some z) \<Rightarrow> [(1000 * w + 100 * x + 10 * y + z, r)]
           | _ \<Rightarrow> [])
      | _ \<Rightarrow> [])"

fun match_directive :: "directive \<Rightarrow> string \<Rightarrow> (nat \<times> string) list" where
  "match_directive Day s =
     two_chars (\<lambda>x y. x = 3 \<and> y \<le> 1) s @ two_chars (\<lambda>x y. 1 \<le> x \<and> x \<le> 2) s
       @ two_chars (\<lambda>x y. x = 0 \<and> 1 \<le> y) s @ one_char s @ space_char s"
| "match_directive Month s =
     two_chars (\<lambda>x y. x = 1 \<and> y \<le> 2) s @ two_chars (\<lambda>x y. x = 0 \<and> 1 \<le> y) s @ one_char s"
| "match_directive Year s = four_digits s"
| "match_directive (Lit c) s = (case s of a # r \<Rightarrow> if a = c then [(0, r)] else [] | [] \<Rightarrow> [])"

fun match_format :: "directive list \<Rightarrow> string \<Rightarrow> ((directive \<times> nat) list \<times> string) list" where
  "match_format [] s = [([], s)]"
| "match_format (t # ts) s =
     concat (map (\<lambda>(v, r). map (\<lambda>(vs, r'). ((t, v) # vs, r')) (match_format ts r))
                 (match_directive t s))"

definition field :: "directive \<Rightarrow> (directive \<times> nat) list \<Rightarrow> nat" where
  "field t vs = (case map_of vs t of Some v \<Rightarrow> v | None \<Rightarrow> 1)"

definition strptime :: "string \<Rightarrow> directive list \<Rightarrow> error + int" where
  "strptime s fmt =
     (case match_format fmt s of
        [] \<Rightarrow> Inl ValueError
      | (vs, r) # _ \<Rightarrow>
          if r \<noteq> [] then Inl ValueError
          else make_date (field Year vs) (field Month vs) (field Day vs))"

text \<open>The four format strings of the program.\<close>

definition fmt_dmY_slash :: "directive list" where
  "fmt_dmY_slash = [Day, Lit (CHR ''/''), Month, Lit (CHR ''/''), Year]"

definition fmt_dmY_dash :: "directive list" where
  "fmt_dmY_dash = [Day, Lit (CHR ''-''), Month, Lit (CHR ''-''), Year]"

definition fmt_mdY_slash :: "directive list" where
  "fmt_mdY_slash = [Month, Lit (CHR ''/''), Day, Lit (CHR ''/''), Year]"

definition fmt_Ymd_dash :: "directive list" where
  "fmt_Ymd_dash = [Year, Lit (CHR ''-''), Month, Lit (CHR ''-''), Day]"

section \<open>Cells, symbols and the price source\<close>

text \<open>
  A cell of the \<^verbatim>\<open>date\<close> column read from the Excel sheet is a string, a datetime (at
  midnight, given by its ordinal) or some other value.
\<close>

datatype date_cell = DateStr string | DateTime int | DateOther

definition to_datetime :: "string \<Rightarrow> directive list \<Rightarrow> error + date_cell" where
  "to_datetime s fmt = (case strptime s fmt of Inl e \<Rightarrow> Inl e | Inr d \<Rightarrow> Inr (DateTime d))"

text \<open>
  The conversion block shared by \<^verbatim>\<open>get_stock_price\<close> (lines 58-70) and
  \<^verbatim>\<open>check_target_or_sl_first\<close> (lines 108-118). A string with neither separator
  passes the first \<^verbatim>\<open>try\<close> without an exception and stays a string.
\<close>

definition convert_date :: "date_cell \<Rightarrow> error + date_cell" where
  "convert_date date =
     (case date of
        DateStr s \<Rightarrow>
          (case (if CHR ''/'' \<in> set s then to_datetime s fmt_dmY_slash
                 else if CHR ''-'' \<in> set s then to_datetime s fmt_dmY_dash
                 else Inr date) of
             Inr c \<Rightarrow> Inr c
           | Inl _ \<Rightarrow>
               (case to_datetime s fmt_mdY_slash of
                  Inr c \<Rightarrow> Inr c
                | Inl _ \<Rightarrow> to_datetime s fmt_Ymd_dash))
      | _ \<Rightarrow> Inr date)"

definition endswith :: "string \<Rightarrow> string \<Rightarrow> bool" where
  "endswith s suf = (length suf \<le> length s \<and> drop (length s - length suf) s = suf)"

definition symbol_formatted :: "string \<Rightarrow> string" where
  "symbol_formatted symbol = (if \<not> endswith symbol ''.NS'' then symbol @ ''.NS'' else symbol)"

text \<open>
  A row of the frame returned by the price source: the date of the bar (its ordinal) and
  the four prices. A price is a finite float64, given by the rational it denotes.
\<close>

record bar =
  bar_date :: int
  Open :: rat
  High :: rat
  Low :: rat
  Close :: rat

text \<open>
  The price source is a parameter: for a ticker, a start and an end it answers with an
  exception or with daily bars. \<^verbatim>\<open>Ticker.history(start=, end=)\<close> of the yfinance library
  returns the bars dated from \<^verbatim>\<open>start\<close> (inclusive) up to \<^verbatim>\<open>end\<close> (exclusive).
\<close>

type_synonym source = "string \<Rightarrow> int \<Rightarrow> int \<Rightarrow> error + bar list"

definition history :: "source \<Rightarrow> string \<Rightarrow> int \<Rightarrow> int \<Rightarrow> error + bar list" where
  "history src ticker start_date end_date =
     (case src ticker start_date end_date of
        Inl e \<Rightarrow> Inl e
      | Inr bars \<Rightarrow> Inr (filter (\<lambda>b. start_date \<le> bar_date b \<and> bar_date b < end_date) bars))"

section \<open>get_stock_price\<close>

text \<open>
  Line 89 subtracts a date from \<^verbatim>\<open>data.index.date\<close>, a numpy array of date objects; the
  difference is a numpy array of timedelta objects, and reading the attribute
  \<^verbatim>\<open>days\<close> of a numpy array raises AttributeError.
\<close>

definition ndarray_days :: "int list \<Rightarrow> error + int list" where
  "ndarray_days arr = Inl AttributeError"

text \<open>\<^verbatim>\<open>idxmin\<close>: the position of the first occurrence of the minimum.\<close>

fun idxmin :: "int list \<Rightarrow> nat" where
  "idxmin [] = 0"
| "idxmin [x] = 0"
| "idxmin (x # y # ys) = (let i = idxmin (y # ys) in if x \<le> (y # ys) ! i then 0 else Suc i)"

text \<open>The body of the \<^verbatim>\<open>try\<close> block of \<^verbatim>\<open>get_stock_price\<close> (lines 51-91).\<close>

definition get_stock_price_body :: "source \<Rightarrow> string \<Rightarrow> date_cell \<Rightarrow> error + rat option" where
  "get_stock_price_body src symbol date0 =
     (case convert_date date0 of
        Inl e \<Rightarrow> Inl e
      | Inr (DateTime date) \<Rightarrow>
          (case add_days date (- 7) of
             Inl e \<Rightarrow> Inl e
           | Inr start_date \<Rightarrow>
          (case add_days date 7 of
             Inl e \<Rightarrow> Inl e
           | Inr end_date \<Rightarrow>
          (case history src (symbol_formatted symbol) start_date end_date of
             Inl e \<Rightarrow> Inl e
           | Inr data \<Rightarrow>
               if data = [] then Inr None
               else
                 (case filter (\<lambda>b. bar_date b = date) data of
                    b # _ \<Rightarrow> Inr (Some (Close b))
                  | [] \<Rightarrow>
                      (case ndarray_days (map (\<lambda>b. bar_date b - date) data) of
                         Inl e \<Rightarrow> Inl e
                       | Inr days \<Rightarrow>
                           Inr (Some (Close (data ! idxmin (map abs days)))))))))
      | Inr _ \<Rightarrow> Inl TypeError)"

text \<open>\<^verbatim>\<open>except Exception\<close> (lines 93-95): every exception becomes \<^verbatim>\<open>None\<close>.\<close>

definition get_stock_price :: "source \<Rightarrow> string \<Rightarrow> date_cell \<Rightarrow> rat option" where
  "get_stock_price src symbol date =
     (case get_stock_price_body src symbol date of Inl e \<Rightarrow> None | Inr r \<Rightarrow> r)"

section \<open>check_target_or_sl_first\<close>

text \<open>
  The strings stored in the \<^verbatim>\<open>result\<close> column: \<^verbatim>\<open>Target Hit\<close>,
  \<^verbatim>\<open>Stop Loss Hit\<close>, \<^verbatim>\<open>Neither Hit\<close>, \<^verbatim>\<open>No Data\<close>, \<^verbatim>\<open>Price Not Found\<close>,
  \<^verbatim>\<open>Error: ...\<close> with the message of an exception, and \<^verbatim>\<open>Processing...\<close>, the
  value the column is created with (line 182).
\<close>

datatype outcome = TargetHit | StopLossHit | NeitherHit | NoData | PriceNotFound
  | Error error | Processing

text \<open>The loop over \<^verbatim>\<open>data.iterrows()\<close> (lines 131-145).\<close>

fun scan_rows :: "int \<Rightarrow> rat \<Rightarrow> rat \<Rightarrow> bar list \<Rightarrow> outcome" where
  "scan_rows entry_date target_price sl_price [] = NeitherHit"
| "scan_rows entry_date target_price sl_price (row # rest) =
     (if bar_date row > entry_date then
        (if High row \<ge> target_price then TargetHit
         else if Low row \<le> sl_price then StopLossHit
         else scan_rows entry_date target_price sl_price rest)
      else scan_rows entry_date target_price sl_price rest)"

definition check_target_or_sl_first ::
    "source \<Rightarrow> string \<Rightarrow> date_cell \<Rightarrow> rat \<Rightarrow> rat \<Rightarrow> rat \<Rightarrow> outcome" where
  "check_target_or_sl_first src symbol entry_date0 entry_price target_price sl_price =
     (case convert_date entry_date0 of
        Inl e \<Rightarrow> Error e
      | Inr (DateTime entry_date) \<Rightarrow>
          (case add_days entry_date 30 of
             Inl e \<Rightarrow> Error e
           | Inr end_date \<Rightarrow>
          (case history src (symbol_formatted symbol) entry_date end_date of
             Inl e \<Rightarrow> Error e
           | Inr data \<Rightarrow>
               if data = [] then NoData
               else scan_rows entry_date target_price sl_price data))
      | Inr _ \<Rightarrow> Error TypeError)"

section \<open>Floating point\<close>

text \<open>
  Prices and percentages are float64 values. A finite float is modelled by the rational
  it denotes, and an arithmetic operation returns the float nearest to the exact result,
  a tie going to the even mantissa of 53 bits. Overflow, subnormal numbers, infinities and
  NaN are not modelled.
\<close>

definition rint :: "rat \<Rightarrow> int" where
  "rint x =
     (let f = \<lfloor>x\<rfloor>; r = x - of_int f
      in if r < 1 / 2 then f else if r > 1 / 2 then f + 1 else if even f then f else f + 1)"

text \<open>The exponent of a positive number: \<open>2 powi ilog2 x \<le> x < 2 powi (ilog2 x + 1)\<close>.\<close>

definition ilog2 :: "rat \<Rightarrow> int" where
  "ilog2 x =
     (case quotient_of x of
        (p, q) \<Rightarrow> (let d = bitlen p - bitlen q in if 2 powi d \<le> x then d else d - 1))"

definition fl :: "rat \<Rightarrow> rat" where
  "fl x =
     (if x = 0 then 0
      else (let e = ilog2 \<bar>x\<bar> - 52 in of_int (rint (x / 2 powi e)) * 2 powi e))"

definition fadd :: "rat \<Rightarrow> rat \<Rightarrow> rat" where
  "fadd a b = fl (a + b)"

definition fsub :: "rat \<Rightarrow> rat \<Rightarrow> rat" where
  "fsub a b = fl (a - b)"

definition fmul :: "rat \<Rightarrow> rat \<Rightarrow> rat" where
  "fmul a b = fl (a * b)"

definition fdiv :: "rat \<Rightarrow> rat \<Rightarrow> rat" where
  "fdiv a b = fl (a / b)"

section \<open>main\<close>

text \<open>
  The rows of the uploaded sheet, and the rows of the frame once the columns
  \<^verbatim>\<open>close_price\<close>, \<^verbatim>\<open>target_pct\<close>, \<^verbatim>\<open>sl_pct\<close> and \<^verbatim>\<open>result\<close> have been added
  (lines 179-182).
\<close>

record trade_row =
  col_date :: date_cell
  col_symbol :: string
  col_marketcapname :: string
  col_sector :: string

record result_row = trade_row +
  col_close_price :: rat
  col_target_pct :: rat
  col_sl_pct :: rat
  col_result :: outcome

text \<open>
  \<^verbatim>\<open>round(x, 2)\<close> on a numpy float64 (line 198): the float is multiplied by 100, rounded
  to the nearest integer with halves going to the even neighbour, and divided by 100.
\<close>

definition round2 :: "rat \<Rightarrow> rat" where
  "round2 x = fdiv (of_int (rint (fmul x 100))) 100"

text \<open>Lines 179-182: the new columns, before the loop.\<close>

definition init_columns :: "rat \<Rightarrow> rat \<Rightarrow> trade_row list \<Rightarrow> result_row list" where
  "init_columns target_pct sl_pct sheet =
     map (\<lambda>row. trade_row.extend row
                  \<lparr>col_close_price = 0, col_target_pct = target_pct,
                   col_sl_pct = sl_pct, col_result = Processing\<rparr>) sheet"

text \<open>
  One pass of the loop of lines 189-215, at index \<open>idx\<close>: the row is read from the
  frame and the two cells are written with \<^verbatim>\<open>df.at\<close>.
\<close>

definition loop_body ::
    "source \<Rightarrow> rat \<Rightarrow> rat \<Rightarrow> result_row list \<Rightarrow> nat \<Rightarrow> result_row list" where
  "loop_body src target_pct sl_pct df idx =
     (let row = df ! idx in
      case get_stock_price src (col_symbol row) (col_date row) of
        Some close_price \<Rightarrow>
          (let df1 = df[idx := (df ! idx)\<lparr>col_close_price := round2 close_price\<rparr>];
               target_price = fmul close_price (fadd 1 (fdiv target_pct 100));
               sl_price = fmul close_price (fsub 1 (fdiv sl_pct 100));
               result = check_target_or_sl_first src (col_symbol row) (col_date row)
                          close_price target_price sl_price
           in df1[idx := (df1 ! idx)\<lparr>col_result := result\<rparr>])
      | None \<Rightarrow>
          (let df1 = df[idx := (df ! idx)\<lparr>col_close_price := 0\<rparr>]
           in df1[idx := (df1 ! idx)\<lparr>col_result := PriceNotFound\<rparr>]))"

definition process_rows ::
    "source \<Rightarrow> rat \<Rightarrow> rat \<Rightarrow> result_row list \<Rightarrow> result_row list" where
  "process_rows src target_pct sl_pct df =
     foldl (loop_body src target_pct sl_pct) df [0..<length df]"

text \<open>
  The row that one pass leaves in the frame for a row of the sheet, lines 194-215.
\<close>

definition process_row :: "source \<Rightarrow> rat \<Rightarrow> rat \<Rightarrow> trade_row \<Rightarrow> result_row" where
  "process_row src target_pct sl_pct row =
     (case get_stock_price src (col_symbol row) (col_date row) of
        Some close_price \<Rightarrow>
          (let target_price = fmul close_price (fadd 1 (fdiv target_pct 100));
               sl_price = fmul close_price (fsub 1 (fdiv sl_pct 100));
               result = check_target_or_sl_first src (col_symbol row) (col_date row)
                          close_price target_price sl_price
           in trade_row.extend row
                \<lparr>col_close_price = round2 close_price, col_target_pct = target_pct,
                 col_sl_pct = sl_pct, col_result = result\<rparr>)
      | None \<Rightarrow>
          trade_row.extend row
            \<lparr>col_close_price = 0, col_target_pct = target_pct,
             col_sl_pct = sl_pct, col_result = PriceNotFound\<rparr>)"

text \<open>
  The column \<^verbatim>\<open>pnl_pct\<close>, lines 308-310: 0, overwritten by \<^verbatim>\<open>target_pct\<close> where the
  result is \<^verbatim>\<open>Target Hit\<close>, then by \<^verbatim>\<open>-sl_pct\<close> where it is \<^verbatim>\<open>Stop Loss Hit\<close>.
\<close>

definition pnl_pct :: "rat \<Rightarrow> rat \<Rightarrow> result_row \<Rightarrow> rat" where
  "pnl_pct target_pct sl_pct r =
     (if col_result r = StopLossHit then - sl_pct
      else if col_result r = TargetHit then target_pct
      else 0)"

text \<open>The quotient \<^verbatim>\<open>a / b\<close> of two Python integers, a float.\<close>

definition truediv :: "nat \<Rightarrow> nat \<Rightarrow> error + rat" where
  "truediv a b = (if b = 0 then Inl ZeroDivisionError else Inr (fl (of_nat a / of_nat b)))"

text \<open>
  What \<^verbatim>\<open>main\<close> computes from the sheet: the processed frame, the column
  \<^verbatim>\<open>pnl_pct\<close>, the counts of lines 235-238, the three shares shown by the metrics of
  lines 244-250, and the figures of lines 312-324.
\<close>

record report =
  rep_df :: "result_row list"
  rep_pnl_pct :: "rat list"
  rep_total_trades :: nat
  rep_target_hit :: nat
  rep_sl_hit :: nat
  rep_no_result :: nat
  rep_target_share :: rat
  rep_sl_share :: rat
  rep_no_result_share :: rat
  rep_total_pnl :: rat
  rep_win_rate :: rat
  rep_avg_pnl :: rat

text \<open>
  Line 292 converts the date column with \<^verbatim>\<open>pd.to_datetime(..., format='mixed')\<close> for the
  monthly chart. The conversion is a parameter: it answers with an exception or with the
  dates of the cells, one for each cell.
\<close>

type_synonym column_parser = "date_cell list \<Rightarrow> error + int list"

text \<open>
  Lines 293-303 turn each date into its month, a pandas \<^verbatim>\<open>Period\<close>, count the rows by
  month and result, and hand the line chart over these months to
  \<^verbatim>\<open>st.plotly_chart\<close>, which writes the figure as JSON. The encoder has no case for a
  \<^verbatim>\<open>Period\<close> and raises TypeError; a frame without rows has no month to write.
\<close>

definition plotly_chart_periods :: "int list \<Rightarrow> error + unit" where
  "plotly_chart_periods months = (if months = [] then Inr () else Inl TypeError)"

text \<open>
  The computations of \<^verbatim>\<open>main\<close> after the check of the columns, in the order of the
  source; the tables and the other charts shown between them are left out. An exception
  leaves the \<^verbatim>\<open>try\<close> block of \<^verbatim>\<open>main\<close> (line 342) and nothing after it is computed.
  The sum of line 312 adds the column in the order of the rows.
\<close>

definition main ::
    "source \<Rightarrow> column_parser \<Rightarrow> rat \<Rightarrow> rat \<Rightarrow> trade_row list \<Rightarrow> error + report" where
  "main src to_datetime_mixed target_pct sl_pct sheet =
     (let df = process_rows src target_pct sl_pct (init_columns target_pct sl_pct sheet);
          total_trades = length df;
          target_hit = length (filter (\<lambda>r. col_result r = TargetHit) df);
          sl_hit = length (filter (\<lambda>r. col_result r = StopLossHit) df);
          no_result =
            length (filter (\<lambda>r. col_result r \<in> {NeitherHit, NoData, PriceNotFound}) df)
      in case truediv target_hit total_trades of
           Inl e \<Rightarrow> Inl e
         | Inr q1 \<Rightarrow>
        (case truediv sl_hit total_trades of
           Inl e \<Rightarrow> Inl e
         | Inr q2 \<Rightarrow>
        (case truediv no_result total_trades of
           Inl e \<Rightarrow> Inl e
         | Inr q3 \<Rightarrow>
        (case to_datetime_mixed (map col_date df) of
           Inl e \<Rightarrow> Inl e
         | Inr dates \<Rightarrow>
        (case plotly_chart_periods dates of
           Inl e \<Rightarrow> Inl e
         | Inr _ \<Rightarrow>
             (let pnl = map (pnl_pct target_pct sl_pct) df;
                  total_pnl = foldl fadd 0 pnl;
                  win_rate =
                    (if target_hit + sl_hit > 0
                     then fmul (fl (of_nat target_hit / of_nat (target_hit + sl_hit))) 100
                     else 0);
                  avg_pnl =
                    (if total_trades > 0 then fdiv total_pnl (of_nat total_trades) else 0)
              in Inr \<lparr>rep_df = df, rep_pnl_pct = pnl, rep_total_trades = total_trades,
                      rep_target_hit = target_hit, rep_sl_hit = sl_hit,
                      rep_no_result = no_result, rep_target_share = fmul q1 100,
                      rep_sl_share = fmul q2 100, rep_no_result_share = fmul q3 100,
                      rep_total_pnl = total_pnl, rep_win_rate = win_rate,
                      rep_avg_pnl = avg_pnl\<rparr>))))))"

section \<open>Reference definitions\<close>

text \<open>
  The priority list of the date formats: the formats are tried one after the other and
  the first that parses the string gives the date.
\<close>

fun first_success :: "directive list list \<Rightarrow> string \<Rightarrow> int option" where
  "first_success [] s = None"
| "first_success (fmt # fmts) s =
     (case strptime s fmt of Inr d \<Rightarrow> Some d | Inl _ \<Rightarrow> first_success fmts s)"

definition parse_priority :: "string \<Rightarrow> int option" where
  "parse_priority s =
     first_success [fmt_dmY_slash, fmt_dmY_dash, fmt_mdY_slash, fmt_Ymd_dash] s"

text \<open>The date that a conversion produced, if it produced one.\<close>

definition parsed :: "error + date_cell \<Rightarrow> int option" where
  "parsed r = (case r of Inr (DateTime d) \<Rightarrow> Some d | _ \<Rightarrow> None)"

text \<open>A character that a numeric directive can consume: a digit or a space.\<close>

definition plain :: "char \<Rightarrow> bool" where
  "plain c = (digit_of c \<noteq> None \<or> c = CHR '' '')"

text \<open>
  The scan of a series in which every bar counts: the first bar that touches a threshold
  decides, the target being looked at first.
\<close>

fun first_hit :: "rat \<Rightarrow> rat \<Rightarrow> bar list \<Rightarrow> outcome" where
  "first_hit target_price sl_price [] = NeitherHit"
| "first_hit target_price sl_price (row # rest) =
     (if High row \<ge> target_price then TargetHit
      else if Low row \<le> sl_price then StopLossHit
      else first_hit target_price sl_price rest)"

section \<open>Example data\<close>

text \<open>
  Day 738879 is 2023-12-25. Each example source answers every request with the same
  bars; \<open>history\<close> cuts them to the window asked for.
\<close>

definition flat_bar :: "int \<Rightarrow> rat \<Rightarrow> bar" where
  "flat_bar d p = \<lparr>bar_date = d, Open = p, High = p, Low = p, Close = p\<rparr>"

definition tie_source :: source where
  "tie_source ticker start_date end_date =
     Inr [\<lparr>bar_date = 738880, Open = 100, High = 101, Low = 99, Close = 100\<rparr>,
          \<lparr>bar_date = 738881, Open = 100, High = 104, Low = 97, Close = 100\<rparr>]"

definition horizon_source :: source where
  "horizon_source ticker start_date end_date =
     Inr [\<lparr>bar_date = 738880, Open = 100, High = 101, Low = 99, Close = 100\<rparr>,
          \<lparr>bar_date = 738909, Open = 100, High = 110, Low = 100, Close = 105\<rparr>]"

definition entry_day_source :: source where
  "entry_day_source ticker start_date end_date = Inr [flat_bar 738879 100]"

definition empty_source :: source where
  "empty_source ticker start_date end_date = Inr []"

definition weekend_source :: source where
  "weekend_source ticker start_date end_date = Inr [flat_bar 738878 99, flat_bar 738881 102]"

text \<open>
  A source that knows three tickers: the first reaches the target on the day after the
  entry, the second the stop-loss; the third is answered for a window of fourteen days
  only, and every other request fails.
\<close>

definition demo_source :: source where
  "demo_source ticker start_date end_date =
     (if ticker = ''TCS.NS'' then
        Inr [flat_bar 738879 100,
             \<lparr>bar_date = 738880, Open = 100, High = 104, Low = 99, Close = 103\<rparr>]
      else if ticker = ''INFY.NS'' then
        Inr [flat_bar 738879 100,
             \<lparr>bar_date = 738880, Open = 100, High = 101, Low = 97, Close = 98\<rparr>]
      else if ticker = ''WIPRO.NS'' \<and> end_date - start_date = 14 then
        Inr [flat_bar 738879 100]
      else Inl FetchError)"

text \<open>
  A source whose close on the entry date, 100.00390625, is not a multiple of 0.01; the
  high of the next day is 103.001953125.
\<close>

definition rounding_source :: source where
  "rounding_source ticker start_date end_date =
     Inr [flat_bar 738879 (25601 / 256),
          \<lparr>bar_date = 738880, Open = 100, High = 52737 / 512, Low = 99, Close = 100\<rparr>]"

text \<open>An example of the conversion of line 292: it accepts a column of datetimes.\<close>

fun datetime_column :: column_parser where
  "datetime_column [] = Inr []"
| "datetime_column (DateTime d # cells) =
     (case datetime_column cells of Inl e \<Rightarrow> Inl e | Inr ds \<Rightarrow> Inr (d # ds))"
| "datetime_column (c # cells) = Inl ValueError"

definition demo_row :: "string \<Rightarrow> trade_row" where
  "demo_row symbol =
     \<lparr>col_date = DateTime 738879, col_symbol = symbol,
      col_marketcapname = ''Largecap'', col_sector = ''IT''\<rparr>"

text \<open>A row whose date is not a date in any of the four formats.\<close>

definition bad_date_row :: trade_row where
  "bad_date_row =
     \<lparr>col_date = DateStr ''soon'', col_symbol = ''TCS'',
      col_marketcapname = ''Largecap'', col_sector = ''IT''\<rparr>"

section \<open>Lemmas\<close>

subsection \<open>Evaluation on the examples\<close>

lemma convert_date_DateTime: "convert_date (DateTime d) = Inr (DateTime d)"
  by (simp add: convert_date_def)

lemma add_days_in_range:
  "min_ordinal \<le> d + n \<Longrightarrow> d + n \<le> max_ordinal \<Longrightarrow> add_days d n = Inr (d + n)"
  by (simp add: add_days_def)

lemma add_days_Inr: "add_days d n = Inr e \<Longrightarrow> e = d + n"
  by (simp add: add_days_def split: if_split_asm)

lemma symbol_formatted_TCS: "symbol_formatted ''TCS'' = ''TCS.NS''"
  by (simp add: symbol_formatted_def endswith_def)

lemmas example_simps =
  convert_date_DateTime add_days_def min_ordinal_def max_ordinal_def history_def
  symbol_formatted_def endswith_def flat_bar_def demo_row_def

subsection \<open>The loop over the bars\<close>

lemma scan_rows_skip:
  "\<forall>b \<in> set pre. \<not> (bar_date b > d \<and> (High b \<ge> tp \<or> Low b \<le> sl)) \<Longrightarrow>
   scan_rows d tp sl (pre @ rest) = scan_rows d tp sl rest"
  by (induction pre) auto

lemma scan_rows_filter:
  "scan_rows d tp sl data = first_hit tp sl (filter (\<lambda>b. bar_date b > d) data)"
  by (induction data) auto

subsection \<open>What a successful strptime says about the string\<close>

lemma two_chars_prefix:
  "(v, r) \<in> set (two_chars ok s) \<Longrightarrow> \<exists>a b. s = a # b # r \<and> plain a \<and> plain b"
  by (auto simp: two_chars_def plain_def split: list.splits option.splits if_splits; metis)

lemma one_char_prefix:
  "(v, r) \<in> set (one_char s) \<Longrightarrow> \<exists>a. s = a # r \<and> plain a"
  by (auto simp: one_char_def plain_def split: list.splits option.splits if_splits; metis)

lemma space_char_prefix:
  assumes "(v, r) \<in> set (space_char s)"
  shows "\<exists>a b. s = a # b # r \<and> plain a \<and> plain b"
proof (cases s)
  case Nil
  with assms show ?thesis by (simp add: space_char_def)
next
  case (Cons a s1)
  note s = this
  show ?thesis
  proof (cases s1)
    case Nil
    with s assms show ?thesis by (simp add: space_char_def)
  next
    case (Cons b s2)
    with s assms show ?thesis
      by (cases "a = CHR '' ''"; cases "digit_of b"; simp add: space_char_def plain_def)
  qed
qed

lemma four_digits_prefix:
  "(v, r) \<in> set (four_digits s) \<Longrightarrow>
     \<exists>a b c d. s = a # b # c # d # r \<and> plain a \<and> plain b \<and> plain c \<and> plain d"
  by (auto simp: four_digits_def plain_def split: list.splits option.splits if_splits; metis)

lemma match_directive_prefix:
  assumes "(v, r) \<in> set (match_directive t s)"
  shows "\<exists>p. s = p @ r \<and> (\<forall>c. t = Lit c \<longrightarrow> c \<in> set p) \<and> (\<forall>x \<in> set p. plain x \<or> t = Lit x)"
proof (cases t)
  case Day
  with assms consider "(v, r) \<in> set (two_chars (\<lambda>x y. x = 3 \<and> y \<le> 1) s)"
    | "(v, r) \<in> set (two_chars (\<lambda>x y. 1 \<le> x \<and> x \<le> 2) s)"
    | "(v, r) \<in> set (two_chars (\<lambda>x y. x = 0 \<and> 1 \<le> y) s)"
    | "(v, r) \<in> set (one_char s)" | "(v, r) \<in> set (space_char s)"
    by auto
  then show ?thesis
  proof cases
    case 1
    then obtain a b where "s = [a, b] @ r" "plain a" "plain b"
      using two_chars_prefix by fastforce
    with Day show ?thesis by (intro exI [of _ "[a, b]"]) simp
  next
    case 2
    then obtain a b where "s = [a, b] @ r" "plain a" "plain b"
      using two_chars_prefix by fastforce
    with Day show ?thesis by (intro exI [of _ "[a, b]"]) simp
  next
    case 3
    then obtain a b where "s = [a, b] @ r" "plain a" "plain b"
      using two_chars_prefix by fastforce
    with Day show ?thesis by (intro exI [of _ "[a, b]"]) simp
  next
    case 4
    then obtain a where "s = [a] @ r" "plain a"
      using one_char_prefix by fastforce
    with Day show ?thesis by (intro exI [of _ "[a]"]) simp
  next
    case 5
    then obtain a b where "s = [a, b] @ r" "plain a" "plain b"
      using space_char_prefix by fastforce
    with Day show ?thesis by (intro exI [of _ "[a, b]"]) simp
  qed
next
  case Month
  with assms consider "(v, r) \<in> set (two_chars (\<lambda>x y. x = 1 \<and> y \<le> 2) s)"
    | "(v, r) \<in> set (two_chars (\<lambda>x y. x = 0 \<and> 1 \<le> y) s)"
    | "(v, r) \<in> set (one_char s)"
    by auto
  then show ?thesis
  proof cases
    case 1
    then obtain a b where "s = [a, b] @ r" "plain a" "plain b"
      using two_chars_prefix by fastforce
    with Month show ?thesis by (intro exI [of _ "[a, b]"]) simp
  next
    case 2
    then obtain a b where "s = [a, b] @ r" "plain a" "plain b"
      using two_chars_prefix by fastforce
    with Month show ?thesis by (intro exI [of _ "[a, b]"]) simp
  next
    case 3
    then obtain a where "s = [a] @ r" "plain a"
      using one_char_prefix by fastforce
    with Month show ?thesis by (intro exI [of _ "[a]"]) simp
  qed
next
  case Year
  with assms have "(v, r) \<in> set (four_digits s)" by simp
  then obtain a b c d where "s = [a, b, c, d] @ r" "plain a" "plain b" "plain c" "plain d"
    using four_digits_prefix by fastforce
  with Year show ?thesis by (intro exI [of _ "[a, b, c, d]"]) simp
next
  case (Lit c)
  with assms have "s = [c] @ r" by (auto split: list.splits if_splits)
  with Lit show ?thesis by (intro exI [of _ "[c]"]) simp
qed

lemma match_format_prefix:
  "(vs, r) \<in> set (match_format fmt s) \<Longrightarrow>
     \<exists>p. s = p @ r \<and> (\<forall>c. Lit c \<in> set fmt \<longrightarrow> c \<in> set p)
          \<and> (\<forall>x \<in> set p. plain x \<or> Lit x \<in> set fmt)"
proof (induction fmt arbitrary: vs r s)
  case Nil
  then show ?case by simp
next
  case (Cons t ts)
  from Cons.prems obtain v r1 ws where
    m1: "(v, r1) \<in> set (match_directive t s)" and m2: "(ws, r) \<in> set (match_format ts r1)"
    by auto
  from match_directive_prefix [OF m1] obtain p1 where
    p1: "s = p1 @ r1" "\<forall>c. t = Lit c \<longrightarrow> c \<in> set p1" "\<forall>x \<in> set p1. plain x \<or> t = Lit x"
    by blast
  from Cons.IH [OF m2] obtain p2 where
    p2: "r1 = p2 @ r" "\<forall>c. Lit c \<in> set ts \<longrightarrow> c \<in> set p2"
        "\<forall>x \<in> set p2. plain x \<or> Lit x \<in> set ts"
    by blast
  show ?case
  proof (intro exI [of _ "p1 @ p2"] conjI)
    show "s = (p1 @ p2) @ r" using p1(1) p2(1) by simp
    show "\<forall>c. Lit c \<in> set (t # ts) \<longrightarrow> c \<in> set (p1 @ p2)" using p1(2) p2(2) by auto
    show "\<forall>x \<in> set (p1 @ p2). plain x \<or> Lit x \<in> set (t # ts)" using p1(3) p2(3) by auto
  qed
qed

lemma strptime_chars:
  assumes "strptime s fmt = Inr d"
  shows "(\<forall>c. Lit c \<in> set fmt \<longrightarrow> c \<in> set s) \<and> (\<forall>x \<in> set s. plain x \<or> Lit x \<in> set fmt)"
proof -
  from assms obtain vs rest where m: "match_format fmt s = (vs, []) # rest"
    by (auto simp: strptime_def split: list.splits if_splits)
  then have "(vs, []) \<in> set (match_format fmt s)" by simp
  from match_format_prefix [OF this] show ?thesis by auto
qed

lemma not_plain_slash: "\<not> plain (CHR ''/'')"
  by (simp add: plain_def digit_of_def)

lemma not_plain_dash: "\<not> plain (CHR ''-'')"
  by (simp add: plain_def digit_of_def)

lemma strptime_needs_lit:
  "Lit c \<in> set fmt \<Longrightarrow> c \<notin> set s \<Longrightarrow> \<exists>e. strptime s fmt = Inl e"
  using strptime_chars [of s fmt] by (cases "strptime s fmt") auto

lemma strptime_foreign_char:
  "x \<in> set s \<Longrightarrow> \<not> plain x \<Longrightarrow> Lit x \<notin> set fmt \<Longrightarrow> \<exists>e. strptime s fmt = Inl e"
  using strptime_chars [of s fmt] by (cases "strptime s fmt") auto

lemma convert_date_priority: "parsed (convert_date (DateStr s)) = parse_priority s"
proof -
  consider (slash) "CHR ''/'' \<in> set s"
    | (dash) "CHR ''/'' \<notin> set s" "CHR ''-'' \<in> set s"
    | (none) "CHR ''/'' \<notin> set s" "CHR ''-'' \<notin> set s"
    by blast
  then show ?thesis
  proof cases
    case slash
    have "\<exists>e. strptime s fmt_dmY_dash = Inl e"
      using slash not_plain_slash by (rule strptime_foreign_char) (simp add: fmt_dmY_dash_def)
    with slash show ?thesis
      by (auto simp: parsed_def convert_date_def parse_priority_def to_datetime_def
          split: sum.splits)
  next
    case dash
    have "\<exists>e. strptime s fmt_dmY_slash = Inl e"
      using _ dash(1) by (rule strptime_needs_lit) (simp add: fmt_dmY_slash_def)
    with dash show ?thesis
      by (auto simp: parsed_def convert_date_def parse_priority_def to_datetime_def
          split: sum.splits)
  next
    case none
    have "\<exists>e. strptime s fmt_dmY_slash = Inl e"
      using _ none(1) by (rule strptime_needs_lit) (simp add: fmt_dmY_slash_def)
    moreover have "\<exists>e. strptime s fmt_mdY_slash = Inl e"
      using _ none(1) by (rule strptime_needs_lit) (simp add: fmt_mdY_slash_def)
    moreover have "\<exists>e. strptime s fmt_dmY_dash = Inl e"
      using _ none(2) by (rule strptime_needs_lit) (simp add: fmt_dmY_dash_def)
    moreover have "\<exists>e. strptime s fmt_Ymd_dash = Inl e"
      using _ none(2) by (rule strptime_needs_lit) (simp add: fmt_Ymd_dash_def)
    ultimately show ?thesis using none
      by (auto simp: parsed_def convert_date_def parse_priority_def)
  qed
qed

subsection \<open>The two branches of the lookup\<close>

lemma get_stock_price_exact_date:
  assumes "convert_date date = Inr (DateTime d)"
    and "add_days d (- 7) = Inr a" and "add_days d 7 = Inr b"
    and "history src (symbol_formatted symbol) a b = Inr data"
    and "filter (\<lambda>b. bar_date b = d) data = x # xs"
  shows "get_stock_price src symbol date = Some (Close x)"
proof -
  have "data \<noteq> []" using assms(5) by auto
  then show ?thesis
    using assms by (simp add: get_stock_price_def get_stock_price_body_def)
qed

lemma get_stock_price_other_date:
  assumes "convert_date date = Inr (DateTime d)"
    and "add_days d (- 7) = Inr a" and "add_days d 7 = Inr b"
    and "history src (symbol_formatted symbol) a b = Inr data"
    and "data \<noteq> []" and "filter (\<lambda>b. bar_date b = d) data = []"
  shows "get_stock_price src symbol date = None"
  using assms
  by (simp add: get_stock_price_def get_stock_price_body_def ndarray_days_def)

subsection \<open>Rounding to the nearest float\<close>

lemma two_powi_less_iff: "(2::rat) powi m < 2 powi n \<longleftrightarrow> m < n"
proof
  assume "(2::rat) powi m < 2 powi n"
  show "m < n"
  proof (rule ccontr)
    assume "\<not> m < n"
    then have "n \<le> m" by simp
    then have "(2::rat) powi n \<le> 2 powi m" by (intro power_int_increasing) simp_all
    with \<open>(2::rat) powi m < 2 powi n\<close> show False by simp
  qed
next
  assume "m < n"
  then show "(2::rat) powi m < 2 powi n" by (intro power_int_strict_increasing) simp_all
qed

lemma ilog2_bounds:
  assumes "0 < x"
  shows "2 powi (ilog2 x) \<le> x \<and> x < 2 powi (ilog2 x + 1)"
proof -
  obtain p q where pq: "quotient_of x = (p, q)" by (cases "quotient_of x")
  have q: "0 < q" using pq by (rule quotient_of_denom_pos)
  have x: "x = of_int p / of_int q" using pq by (rule quotient_of_div)
  have p: "0 < p" using assms q unfolding x by (simp add: zero_less_divide_iff)
  define bp bq where "bp = bitlen p" and "bq = bitlen q"
  have bp1: "1 \<le> bp" and bq1: "1 \<le> bq"
    using p q by (simp_all add: bp_def bq_def bitlen_alt_def)
  have pb: "2 ^ nat (bp - 1) \<le> p" "p < 2 ^ nat bp"
    using bitlen_bounds [OF p] by (simp_all add: bp_def)
  have qb: "2 ^ nat (bq - 1) \<le> q" "q < 2 ^ nat bq"
    using bitlen_bounds [OF q] by (simp_all add: bq_def)
  have P1: "(2::rat) powi (bp - 1) \<le> of_int p"
  proof -
    have "(of_int (2 ^ nat (bp - 1)) :: rat) \<le> of_int p" using pb(1) by (rule of_int_le_iff [THEN iffD2])
    then show ?thesis using bp1 by (simp add: power_int_nonneg_exp)
  qed
  have P2: "of_int p < (2::rat) powi bp"
  proof -
    have "(of_int p :: rat) < of_int (2 ^ nat bp)" using pb(2) by (rule of_int_less_iff [THEN iffD2])
    then show ?thesis using bp1 by (simp add: power_int_nonneg_exp)
  qed
  have Q1: "(2::rat) powi (bq - 1) \<le> of_int q"
  proof -
    have "(of_int (2 ^ nat (bq - 1)) :: rat) \<le> of_int q" using qb(1) by (rule of_int_le_iff [THEN iffD2])
    then show ?thesis using bq1 by (simp add: power_int_nonneg_exp)
  qed
  have Q2: "of_int q < (2::rat) powi bq"
  proof -
    have "(of_int q :: rat) < of_int (2 ^ nat bq)" using qb(2) by (rule of_int_less_iff [THEN iffD2])
    then show ?thesis using bq1 by (simp add: power_int_nonneg_exp)
  qed
  have qpos: "(0::rat) < of_int q" using q by simp
  have lower: "(2::rat) powi (bp - bq - 1) < x"
  proof -
    have "(2::rat) powi (bp - bq - 1) = 2 powi (bp - 1) / 2 powi bq"
      using power_int_diff [of "2::rat" "bp - 1" bq] by (simp add: algebra_simps)
    also have "\<dots> \<le> of_int p / 2 powi bq"
      using P1 by (simp add: divide_right_mono)
    also have "\<dots> < of_int p / of_int q"
      using Q2 qpos p by (simp add: divide_strict_left_mono)
    finally show ?thesis by (simp add: x)
  qed
  have upper: "x < (2::rat) powi (bp - bq + 1)"
  proof -
    have "x < 2 powi bp / of_int q"
      unfolding x using P2 qpos by (simp add: divide_strict_right_mono)
    also have "\<dots> \<le> 2 powi bp / 2 powi (bq - 1)"
      using Q1 by (intro frac_le) simp_all
    also have "\<dots> = (2::rat) powi (bp - bq + 1)"
      using power_int_diff [of "2::rat" bp "bq - 1"] by (simp add: algebra_simps)
    finally show ?thesis .
  qed
  show ?thesis
  proof (cases "2 powi (bp - bq) \<le> x")
    case True
    then have "ilog2 x = bp - bq" by (simp add: ilog2_def pq bp_def bq_def)
    with True upper show ?thesis by simp
  next
    case False
    then have "ilog2 x = bp - bq - 1" by (simp add: ilog2_def pq bp_def bq_def)
    with False lower show ?thesis by simp
  qed
qed

lemma ilog2_unique:
  assumes "0 < x" and "2 powi k \<le> x" and "x < 2 powi (k + 1)"
  shows "ilog2 x = k"
proof -
  from ilog2_bounds [OF assms(1)]
  have b: "2 powi (ilog2 x) \<le> x" "x < 2 powi (ilog2 x + 1)" by simp_all
  have "(2::rat) powi (ilog2 x) < 2 powi (k + 1)" using b(1) assms(3) by simp
  then have 1: "ilog2 x < k + 1" by (simp only: two_powi_less_iff)
  have "(2::rat) powi k < 2 powi (ilog2 x + 1)" using b(2) assms(2) by simp
  then have 2: "k < ilog2 x + 1" by (simp only: two_powi_less_iff)
  from 1 2 show ?thesis by simp
qed

lemma rint_of_int: "rint (of_int n) = n"
  by (simp add: rint_def)

lemma rint_near:
  assumes "of_int n - 1 / 2 < x" and "x < of_int n + 1 / 2"
  shows "rint x = n"
proof (cases "of_int n \<le> x")
  case True
  then have "\<lfloor>x\<rfloor> = n" using assms by (intro floor_unique) auto
  then show ?thesis using assms by (simp add: rint_def)
next
  case False
  then have "\<lfloor>x\<rfloor> = n - 1" using assms by (intro floor_unique) auto
  then show ?thesis using assms False by (simp add: rint_def)
qed

lemma rint_error: "\<bar>x - of_int (rint x)\<bar> \<le> 1 / 2"
proof -
  have "of_int \<lfloor>x\<rfloor> \<le> x" "x < of_int \<lfloor>x\<rfloor> + 1" by linarith+
  then show ?thesis by (auto simp: rint_def Let_def)
qed

lemma fl_eqI:
  assumes "2 powi (e + 52) \<le> \<bar>x\<bar>" and "\<bar>x\<bar> < 2 powi (e + 53)"
  shows "fl x = of_int (rint (x / 2 powi e)) * 2 powi e"
proof -
  have "(0::rat) < 2 powi (e + 52)" by simp
  with assms(1) have pos: "0 < \<bar>x\<bar>" by linarith
  have "ilog2 \<bar>x\<bar> = e + 52"
    using pos assms(1) by (rule ilog2_unique) (use assms(2) in \<open>simp add: add.commute\<close>)
  with pos show ?thesis by (simp add: fl_def)
qed

lemma fl_near:
  assumes "2 powi (e + 52) \<le> \<bar>x\<bar>" and "\<bar>x\<bar> < 2 powi (e + 53)"
    and "of_int n - 1 / 2 < x / 2 powi e" and "x / 2 powi e < of_int n + 1 / 2"
  shows "fl x = of_int n * 2 powi e"
  using fl_eqI [OF assms(1,2)] rint_near [OF assms(3,4)] by simp

subsection \<open>The float values of the examples\<close>

text \<open>
  The floats of the examples, each by \<open>fl_near\<close> with its exponent and mantissa: 0.03,
  1.03, 0.02 and 0.98 as floats, their products with the prices 100 and 100.00390625, and
  the steps of rounding these prices to 2 decimal places.
\<close>

lemma fdiv_3_100: "fdiv 3 100 = 1080863910568919 / 36028797018963968"
  unfolding fdiv_def
  using fl_near [where x = "3 / 100" and e = "- 58" and n = 8646911284551352]
  by simp

lemma fadd_1_A3: "fadd 1 (1080863910568919 / 36028797018963968) = 4638707616191611 / 4503599627370496"
  unfolding fadd_def
  using fl_near [where x = "1 + (1080863910568919 / 36028797018963968)" and e = "- 52" and n = 4638707616191611]
  by simp

lemma fdiv_2_100: "fdiv 2 100 = 5764607523034235 / 288230376151711744"
  unfolding fdiv_def
  using fl_near [where x = "2 / 100" and e = "- 58" and n = 5764607523034235]
  by simp

lemma fsub_1_A2: "fsub 1 (5764607523034235 / 288230376151711744) = 2206763817411543 / 2251799813685248"
  unfolding fsub_def
  using fl_near [where x = "1 - (5764607523034235 / 288230376151711744)" and e = "- 53" and n = 8827055269646172]
  by simp

lemma fmul_100_B3: "fmul 100 (4638707616191611 / 4503599627370496) = 103"
  unfolding fmul_def
  using fl_near [where x = "100 * (4638707616191611 / 4503599627370496)" and e = "- 46" and n = 7247980650299392]
  by simp

lemma fmul_100_B2: "fmul 100 (2206763817411543 / 2251799813685248) = 98"
  unfolding fmul_def
  using fl_near [where x = "100 * (2206763817411543 / 2251799813685248)" and e = "- 46" and n = 6896136929411072]
  by simp

lemma fmul_p_B3: "fmul (25601 / 256) (4638707616191611 / 4503599627370496) = 7248263774543545 / 70368744177664"
  unfolding fmul_def
  using fl_near [where x = "(25601 / 256) * (4638707616191611 / 4503599627370496)" and e = "- 46" and n = 7248263774543545]
  by simp

lemma fmul_p_B2: "fmul (25601 / 256) (2206763817411543 / 2251799813685248) = 6896406309759877 / 70368744177664"
  unfolding fmul_def
  using fl_near [where x = "(25601 / 256) * (2206763817411543 / 2251799813685248)" and e = "- 46" and n = 6896406309759877]
  by simp

lemma fmul_p_100: "fmul (25601 / 256) 100 = 640025 / 64"
  unfolding fmul_def
  using fl_near [where x = "(25601 / 256) * 100" and e = "- 39" and n = 5497772887244800]
  by simp

lemma fmul_100_100: "fmul 100 100 = 10000"
  unfolding fmul_def
  using fl_near [where x = "100 * 100" and e = "- 39" and n = 5497558138880000]
  by simp

lemma fdiv_10000_100: "fdiv 10000 100 = 100"
  unfolding fdiv_def
  using fl_near [where x = "10000 / 100" and e = "- 46" and n = 7036874417766400]
  by simp

lemma target_price_100: "fmul 100 (fadd 1 (fdiv 3 100)) = 103"
  unfolding fdiv_3_100 fadd_1_A3 by (rule fmul_100_B3)

lemma sl_price_100: "fmul 100 (fsub 1 (fdiv 2 100)) = 98"
  unfolding fdiv_2_100 fsub_1_A2 by (rule fmul_100_B2)

lemma target_price_p: "fmul (25601 / 256) (fadd 1 (fdiv 3 100)) = 7248263774543545 / 70368744177664"
  unfolding fdiv_3_100 fadd_1_A3 by (rule fmul_p_B3)

lemma sl_price_p: "fmul (25601 / 256) (fsub 1 (fdiv 2 100)) = 6896406309759877 / 70368744177664"
  unfolding fdiv_2_100 fsub_1_A2 by (rule fmul_p_B2)

lemma round2_100: "round2 100 = 100"
proof -
  have "rint 10000 = 10000" using rint_of_int [of 10000] by simp
  then show ?thesis by (simp add: round2_def fmul_100_100 fdiv_10000_100)
qed

lemma round2_p: "round2 (25601 / 256) = 100"
proof -
  have "rint (640025 / 64) = 10000" by (rule rint_near) simp_all
  then show ?thesis by (simp add: round2_def fmul_p_100 fdiv_10000_100)
qed

lemmas float_examples =
  target_price_100 sl_price_100 target_price_p sl_price_p round2_100 round2_p

text \<open>
  A product that is not exact: \<^verbatim>\<open>110 * (1 + 10.0 / 100)\<close> is 121.00000000000001, the
  float next above 121.
\<close>

lemma fdiv_10_100: "fdiv 10 100 = 3602879701896397 / 36028797018963968"
  unfolding fdiv_def
  using fl_near [where x = "10 / 100" and e = "- 56" and n = 7205759403792794]
  by simp

lemma fadd_1_A10: "fadd 1 (3602879701896397 / 36028797018963968) = 2476979795053773 / 2251799813685248"
  unfolding fadd_def
  using fl_near [where x = "1 + (3602879701896397 / 36028797018963968)" and e = "- 52" and n = 4953959590107546]
  by simp

lemma fmul_110_B10: "fmul 110 (2476979795053773 / 2251799813685248) = 8514618045497345 / 70368744177664"
  unfolding fmul_def
  using fl_near [where x = "110 * (2476979795053773 / 2251799813685248)" and e = "- 46" and n = 8514618045497345]
  by simp

lemma target_price_110: "fmul 110 (fadd 1 (fdiv 10 100)) = 121 + 1 / 2 ^ 46"
  unfolding fdiv_10_100 fadd_1_A10 fmul_110_B10 by simp

subsection \<open>The loop over the sheet\<close>

lemma truncate_process_row: "trade_row.truncate (process_row src t s row) = row"
  by (cases row)
     (simp add: process_row_def trade_row.truncate_def trade_row.extend_def Let_def
        split: option.split)

lemma scan_rows_not_Processing: "scan_rows d tp sl data \<noteq> Processing"
  by (induction data) auto

lemma check_not_Processing: "check_target_or_sl_first src symbol date p tp sl \<noteq> Processing"
  by (simp add: check_target_or_sl_first_def scan_rows_not_Processing
      split: sum.split date_cell.split)

lemma process_row_not_Processing: "col_result (process_row src t s row) \<noteq> Processing"
  by (simp add: process_row_def trade_row.extend_def Let_def check_not_Processing
      split: option.split)

lemma loop_body_init:
  "loop_body src t s df idx =
     df[idx := process_row src t s (trade_row.truncate (df ! idx))]"
  if "idx < length df" and "col_target_pct (df ! idx) = t" and "col_sl_pct (df ! idx) = s"
proof -
  obtain d sy m se c tp sp r where row: "df ! idx =
      \<lparr>col_date = d, col_symbol = sy, col_marketcapname = m, col_sector = se,
       col_close_price = c, col_target_pct = tp, col_sl_pct = sp, col_result = r\<rparr>"
    by (cases "df ! idx") auto
  with that(2,3) have tp: "tp = t" and sp: "sp = s" by simp_all
  show ?thesis
    using that(1)
    by (simp add: loop_body_def process_row_def Let_def row tp sp
        trade_row.truncate_def trade_row.extend_def split: option.split)
qed

lemma foldl_loop_body:
  "n \<le> length sheet \<Longrightarrow>
   foldl (loop_body src t s) (init_columns t s sheet) [0..<n] =
     map (process_row src t s) (take n sheet) @ drop n (init_columns t s sheet)"
proof (induction n)
  case 0
  then show ?case by simp
next
  case (Suc n)
  let ?init = "init_columns t s sheet"
  let ?done = "map (process_row src t s) (take n sheet)"
  have n: "n < length sheet" using Suc.prems by simp
  have len: "length ?init = length sheet" by (simp add: init_columns_def)
  have nth: "?init ! n = trade_row.extend (sheet ! n)
      \<lparr>col_close_price = 0, col_target_pct = t, col_sl_pct = s, col_result = Processing\<rparr>"
    using n by (simp add: init_columns_def)
  have cur: "(?done @ drop n ?init) ! n = ?init ! n"
    using n len by (simp add: nth_append)
  have tr: "trade_row.truncate (?init ! n) = sheet ! n"
    unfolding nth by (cases "sheet ! n") (simp add: trade_row.truncate_def trade_row.extend_def)
  have cols: "col_target_pct (?init ! n) = t" "col_sl_pct (?init ! n) = s"
    unfolding nth by (simp_all add: trade_row.extend_def)
  have "foldl (loop_body src t s) ?init [0..<Suc n] =
      loop_body src t s (?done @ drop n ?init) n"
    using Suc.IH n by simp
  also have "\<dots> = (?done @ drop n ?init)[n := process_row src t s (sheet ! n)]"
    using n len cols by (subst loop_body_init) (simp_all add: cur tr)
  also have "\<dots> = ?done @ (drop n ?init)[0 := process_row src t s (sheet ! n)]"
    using n by (simp add: list_update_append)
  also have "drop n ?init = ?init ! n # drop (Suc n) ?init"
    using n len by (simp add: Cons_nth_drop_Suc)
  also have "?done @ (?init ! n # drop (Suc n) ?init)[0 := process_row src t s (sheet ! n)] =
      map (process_row src t s) (take (Suc n) sheet) @ drop (Suc n) ?init"
    using n by (simp add: take_Suc_conv_app_nth)
  finally show ?case .
qed

lemma process_rows_init:
  "process_rows src t s (init_columns t s sheet) = map (process_row src t s) sheet"
proof -
  have "length (init_columns t s sheet) = length sheet" by (simp add: init_columns_def)
  then show ?thesis
    using foldl_loop_body [of "length sheet" sheet src t s] by (simp add: process_rows_def)
qed

subsection \<open>The examples of the sheet\<close>

lemma process_row_demo_TCS:
  "process_row demo_source 3 2 (demo_row ''TCS'') =
     \<lparr>col_date = DateTime 738879, col_symbol = ''TCS'', col_marketcapname = ''Largecap'',
      col_sector = ''IT'', col_close_price = 100, col_target_pct = 3, col_sl_pct = 2,
      col_result = TargetHit\<rparr>"
  by (simp add: process_row_def get_stock_price_def get_stock_price_body_def
      check_target_or_sl_first_def example_simps demo_source_def trade_row.extend_def
      float_examples)

lemma process_row_demo_INFY:
  "process_row demo_source 3 2 (demo_row ''INFY'') =
     \<lparr>col_date = DateTime 738879, col_symbol = ''INFY'', col_marketcapname = ''Largecap'',
      col_sector = ''IT'', col_close_price = 100, col_target_pct = 3, col_sl_pct = 2,
      col_result = StopLossHit\<rparr>"
  by (simp add: process_row_def get_stock_price_def get_stock_price_body_def
      check_target_or_sl_first_def example_simps demo_source_def trade_row.extend_def
      float_examples)

lemma process_row_demo_XYZ:
  "process_row demo_source 3 2 (demo_row ''XYZ'') =
     \<lparr>col_date = DateTime 738879, col_symbol = ''XYZ'', col_marketcapname = ''Largecap'',
      col_sector = ''IT'', col_close_price = 0, col_target_pct = 3, col_sl_pct = 2,
      col_result = PriceNotFound\<rparr>"
  by (simp add: process_row_def get_stock_price_def get_stock_price_body_def
      check_target_or_sl_first_def example_simps demo_source_def trade_row.extend_def)

lemma process_row_demo_WIPRO:
  "process_row demo_source 3 2 (demo_row ''WIPRO'') =
     \<lparr>col_date = DateTime 738879, col_symbol = ''WIPRO'', col_marketcapname = ''Largecap'',
      col_sector = ''IT'', col_close_price = 100, col_target_pct = 3, col_sl_pct = 2,
      col_result = Error FetchError\<rparr>"
  by (simp add: process_row_def get_stock_price_def get_stock_price_body_def
      check_target_or_sl_first_def example_simps demo_source_def trade_row.extend_def
      float_examples)

lemma convert_date_soon: "convert_date (DateStr ''soon'') = Inr (DateStr ''soon'')"
  by (simp add: convert_date_def)

lemma process_row_bad_date:
  "process_row demo_source 3 2 bad_date_row =
     \<lparr>col_date = DateStr ''soon'', col_symbol = ''TCS'', col_marketcapname = ''Largecap'',
      col_sector = ''IT'', col_close_price = 0, col_target_pct = 3, col_sl_pct = 2,
      col_result = PriceNotFound\<rparr>"
  by (simp add: process_row_def get_stock_price_def get_stock_price_body_def
      convert_date_soon bad_date_row_def trade_row.extend_def)

lemmas demo_rows =
  process_row_demo_TCS process_row_demo_INFY process_row_demo_XYZ process_row_demo_WIPRO
  process_row_bad_date

lemma get_stock_price_rounding:
  "get_stock_price rounding_source ''TCS'' (DateTime 738879) = Some (25601 / 256)"
  by (simp add: get_stock_price_def get_stock_price_body_def example_simps
      rounding_source_def)

subsection \<open>The report\<close>

lemma main_Inr:
  assumes "main src conv t s sheet = Inr rep"
  shows "sheet \<noteq> []
    \<and> conv (map col_date (process_rows src t s (init_columns t s sheet))) = Inr []"
proof -
  have "sheet \<noteq> []"
  proof
    assume "sheet = []"
    then have "main src conv t s sheet = Inl ZeroDivisionError"
      by (simp add: main_def process_rows_def init_columns_def truediv_def)
    with assms show False by simp
  qed
  moreover have "conv (map col_date (process_rows src t s (init_columns t s sheet))) = Inr []"
    using assms
    by (simp add: main_def Let_def plotly_chart_periods_def
        split: sum.split_asm if_split_asm)
  ultimately show ?thesis by simp
qed

section \<open>The claims\<close>

text \<open>
  C1. Within one bar the target is tested before the stop-loss: when the first bar after
  the entry date that touches a threshold has both \<open>High \<ge> target_price\<close> and
  \<open>Low \<le> sl_price\<close>, the classifier returns \<open>TargetHit\<close>.
\<close>

theorem tie_break_target_first:
  assumes "convert_date entry = Inr (DateTime d)"
    and "add_days d 30 = Inr e"
    and "history src (symbol_formatted symbol) d e = Inr (pre @ row # post)"
    and "\<forall>b \<in> set pre. \<not> (bar_date b > d \<and> (High b \<ge> tp \<or> Low b \<le> sl))"
    and "bar_date row > d" and "High row \<ge> tp" and "Low row \<le> sl"
  shows "check_target_or_sl_first src symbol entry p tp sl = TargetHit"
proof -
  have "scan_rows d tp sl (pre @ row # post) = scan_rows d tp sl (row # post)"
    using assms(4) by (rule scan_rows_skip)
  also have "\<dots> = TargetHit"
    using assms(5,6) by simp
  finally show ?thesis
    using assms(1,2,3) by (simp add: check_target_or_sl_first_def)
qed

theorem tie_break_target_first_witness:
  "check_target_or_sl_first tie_source ''TCS'' (DateTime 738879) 100 103 98 = TargetHit"
  by (rule tie_break_target_first [where d = 738879 and e = 738909
        and pre = "[\<lparr>bar_date = 738880, Open = 100, High = 101, Low = 99, Close = 100\<rparr>]"
        and row = "\<lparr>bar_date = 738881, Open = 100, High = 104, Low = 97, Close = 100\<rparr>"
        and post = "[]"])
     (simp_all add: example_simps tie_source_def)

text \<open>
  C2, as the spec states it, fails: a bar dated entry_date + 30 is outside the window
  that is fetched (the end of the window is exclusive), so it is never scanned. Here the
  source holds a bar on day 738909 = 738879 + 30 whose high is above the target, and the
  outcome is \<open>NeitherHit\<close>.
\<close>

theorem horizon_day_30_counterexample:
  "horizon_source (symbol_formatted ''TCS'') 738879 (738879 + 30) =
     Inr [\<lparr>bar_date = 738880, Open = 100, High = 101, Low = 99, Close = 100\<rparr>,
          \<lparr>bar_date = 738879 + 30, Open = 100, High = 110, Low = 100, Close = 105\<rparr>]
   \<and> check_target_or_sl_first horizon_source ''TCS'' (DateTime 738879) 100 103 98 = NeitherHit"
  by (simp add: check_target_or_sl_first_def example_simps horizon_source_def)

text \<open>
  C2, amended. The scan window is entry_date + 1 through entry_date + 29 inclusive: the
  outcome is \<open>NoData\<close> when the source has no bar from entry_date through
  entry_date + 29, and otherwise it is decided by the bars dated entry_date + 1 through
  entry_date + 29 alone, in their order; the prices of a bar dated on or before
  entry_date, or on or after entry_date + 30, are never examined.
\<close>

theorem scan_window:
  assumes "convert_date entry = Inr (DateTime d)"
    and "add_days d 30 = Inr e"
    and "src (symbol_formatted symbol) d e = Inr bars"
  shows "check_target_or_sl_first src symbol entry p tp sl =
           (if filter (\<lambda>b. d \<le> bar_date b \<and> bar_date b \<le> d + 29) bars = [] then NoData
            else first_hit tp sl
                   (filter (\<lambda>b. d + 1 \<le> bar_date b \<and> bar_date b \<le> d + 29) bars))"
proof -
  have e: "e = d + 30" using assms(2) by (rule add_days_Inr)
  have w: "(\<lambda>b. d \<le> bar_date b \<and> bar_date b < d + 30) =
           (\<lambda>b. d \<le> bar_date b \<and> bar_date b \<le> d + 29)"
    by auto
  have f: "filter (\<lambda>b. bar_date b > d)
             (filter (\<lambda>b. d \<le> bar_date b \<and> bar_date b \<le> d + 29) bars) =
           filter (\<lambda>b. d + 1 \<le> bar_date b \<and> bar_date b \<le> d + 29) bars"
    by (induction bars) auto
  have "history src (symbol_formatted symbol) d e =
          Inr (filter (\<lambda>b. d \<le> bar_date b \<and> bar_date b \<le> d + 29) bars)"
    using assms(3) by (simp add: history_def e w)
  then show ?thesis
    using assms(1,2)
    by (simp add: check_target_or_sl_first_def scan_rows_filter f del: filter_filter)
qed

theorem scan_window_witness:
  "check_target_or_sl_first horizon_source ''TCS'' (DateTime 738879) 100 103 98 =
     first_hit 103 98 [\<lparr>bar_date = 738880, Open = 100, High = 101, Low = 99, Close = 100\<rparr>]"
  using scan_window [of "DateTime 738879" 738879 738909 horizon_source "''TCS''"
      "[\<lparr>bar_date = 738880, Open = 100, High = 101, Low = 99, Close = 100\<rparr>,
        \<lparr>bar_date = 738909, Open = 100, High = 110, Low = 100, Close = 105\<rparr>]" 100 103 98]
  by (simp add: example_simps horizon_source_def)

text \<open>
  C3, as the spec states it, fails on its second example: the string 12-25-2023 has no
  slash, so the day-first format with dashes is tried and rejects month 25; the two
  fallback formats are month/day/year with slashes and year-month-day, and neither
  matches this string. The conversion raises ValueError.
\<close>

theorem month_first_dash_counterexample:
  "convert_date (DateStr ''12-25-2023'') = Inl ValueError"
  by (simp add: convert_date_def to_datetime_def strptime_def fmt_dmY_dash_def
      fmt_mdY_slash_def fmt_Ymd_dash_def two_chars_def one_char_def space_char_def
      four_digits_def digit_of_def)

text \<open>
  C3, amended. A date string is parsed by the first of the four formats day/month/year
  with slashes, day-month-year with dashes, month/day/year with slashes, ISO
  year-month-day that parses it; 25/12/2023 parses as day 25 of month 12, and
  12/25/2023, which is not a date day-first, falls back to the month-first parse.
  There is no month-first format with dashes.
\<close>

theorem date_format_priority:
  "parsed (convert_date (DateStr s)) = parse_priority s
   \<and> convert_date (DateStr ''25/12/2023'') = Inr (DateTime (ymd2ord 2023 12 25))
   \<and> strptime ''12/25/2023'' fmt_dmY_slash = Inl ValueError
   \<and> convert_date (DateStr ''12/25/2023'') = Inr (DateTime (ymd2ord 2023 12 25))"
proof (intro conjI)
  show "parsed (convert_date (DateStr s)) = parse_priority s"
    by (rule convert_date_priority)
  show "convert_date (DateStr ''25/12/2023'') = Inr (DateTime (ymd2ord 2023 12 25))"
    by (simp add: convert_date_def to_datetime_def strptime_def fmt_dmY_slash_def
        two_chars_def one_char_def space_char_def four_digits_def digit_of_def field_def
        make_date_def days_in_month_def)
  show "strptime ''12/25/2023'' fmt_dmY_slash = Inl ValueError"
    by (simp add: strptime_def fmt_dmY_slash_def
        two_chars_def one_char_def space_char_def four_digits_def digit_of_def)
  show "convert_date (DateStr ''12/25/2023'') = Inr (DateTime (ymd2ord 2023 12 25))"
    by (simp add: convert_date_def to_datetime_def strptime_def fmt_dmY_slash_def
        fmt_mdY_slash_def
        two_chars_def one_char_def space_char_def four_digits_def digit_of_def field_def
        make_date_def days_in_month_def)
qed

text \<open>
  C4. The resolver returns the close of the bar dated on the target date when the window
  has one. When the window has bars but none on the target date, line 89 raises
  AttributeError and the resolver returns \<^verbatim>\<open>None\<close>: here the window holds the bars of
  days 738878 and 738881 around the target day 738879, the nearest bar closed at 99,
  and no price is returned.
\<close>

theorem closest_day_lookup_fails:
  "get_stock_price weekend_source ''TCS'' (DateTime 738879) = None
   \<and> history weekend_source (symbol_formatted ''TCS'') (738879 - 7) (738879 + 7) =
       Inr [flat_bar 738878 99, flat_bar 738881 102]
   \<and> Close ([flat_bar 738878 99, flat_bar 738881 102]
              ! idxmin (map abs [738878 - 738879, 738881 - 738879])) = 99"
  by (simp add: get_stock_price_def get_stock_price_body_def ndarray_days_def
      example_simps weekend_source_def)

text \<open>
  C5, as the spec states it, fails in its first half: the classifier fetches from the
  entry date on and tests the fetched frame for emptiness, so when the source has the
  bar of the entry date and nothing after it the outcome is \<open>NeitherHit\<close>.
\<close>

theorem entry_day_only_counterexample:
  "history entry_day_source (symbol_formatted ''TCS'') 738879 (738879 + 30) =
     Inr [flat_bar 738879 100]
   \<and> bar_date (flat_bar 738879 100) = 738879
   \<and> check_target_or_sl_first entry_day_source ''TCS'' (DateTime 738879) 100 103 98 =
       NeitherHit"
  by (simp add: check_target_or_sl_first_def example_simps entry_day_source_def)

text \<open>
  C5, amended. If the daily series fetched from the entry date (inclusive) to 30 days
  later (exclusive) is empty, the classifier returns \<open>NoData\<close>; and if the resolver
  returns no price, the row's outcome is \<open>PriceNotFound\<close> with pnl_pct 0 and
  close_price recorded as 0.
\<close>

theorem no_data_and_price_not_found:
  "(convert_date entry = Inr (DateTime d) \<and> add_days d 30 = Inr e
      \<and> history src (symbol_formatted symbol) d e = Inr []
    \<longrightarrow> check_target_or_sl_first src symbol entry p tp sl = NoData)
   \<and> (get_stock_price src (col_symbol row) (col_date row) = None
    \<longrightarrow> col_result (process_row src t s row) = PriceNotFound
        \<and> col_close_price (process_row src t s row) = 0
        \<and> pnl_pct t s (process_row src t s row) = 0)"
  by (simp add: check_target_or_sl_first_def process_row_def pnl_pct_def
      trade_row.extend_def)

theorem no_data_and_price_not_found_witness:
  "check_target_or_sl_first empty_source ''TCS'' (DateTime 738879) 100 103 98 = NoData
   \<and> get_stock_price empty_source ''TCS'' (DateTime 738879) = None
   \<and> col_result (process_row empty_source 3 2 (demo_row ''TCS'')) = PriceNotFound
   \<and> col_close_price (process_row empty_source 3 2 (demo_row ''TCS'')) = 0
   \<and> pnl_pct 3 2 (process_row empty_source 3 2 (demo_row ''TCS'')) = 0"
proof -
  have 1: "history empty_source (symbol_formatted ''TCS'') 738879 738909 = Inr []"
    by (simp add: history_def empty_source_def)
  have 2: "get_stock_price empty_source ''TCS'' (DateTime 738879) = None"
    by (simp add: get_stock_price_def get_stock_price_body_def example_simps
        empty_source_def)
  have 3: "add_days 738879 30 = Inr 738909"
    by (simp add: example_simps)
  show ?thesis
    using no_data_and_price_not_found [of "DateTime 738879" 738879 738909 empty_source
        "''TCS''" 100 103 98 "demo_row ''TCS''" 3 2] 1 2 3
    by (simp add: convert_date_DateTime demo_row_def)
qed

text \<open>
  C6. The column pnl_pct and the total P&L are the work of lines 308-312, and no run
  of \<^verbatim>\<open>main\<close> reaches them: on a sheet with rows the monthly chart of lines 293-303
  raises TypeError first. Here the sheet has one row, its outcome is \<open>TargetHit\<close>, so
  its pnl_pct would be 3 and the total P&L 3; \<^verbatim>\<open>main\<close> ends with TypeError and
  computes neither.
\<close>

theorem pnl_never_computed:
  "process_rows demo_source 3 2 (init_columns 3 2 [demo_row ''TCS'']) =
     [\<lparr>col_date = DateTime 738879, col_symbol = ''TCS'', col_marketcapname = ''Largecap'',
       col_sector = ''IT'', col_close_price = 100, col_target_pct = 3, col_sl_pct = 2,
       col_result = TargetHit\<rparr>]
   \<and> main demo_source datetime_column 3 2 [demo_row ''TCS''] = Inl TypeError"
  by (simp add: main_def Let_def process_rows_init demo_rows truediv_def
      plotly_chart_periods_def)

text \<open>
  C7. The win rate is the work of line 313, and no run of \<^verbatim>\<open>main\<close> reaches it, for
  the reason given at C6. Here the sheet has one \<open>TargetHit\<close> and one
  \<open>StopLossHit\<close>, so the denominator is positive; \<^verbatim>\<open>main\<close> ends with TypeError and
  reports no win rate.
\<close>

theorem win_rate_never_computed:
  "map col_result
     (process_rows demo_source 3 2 (init_columns 3 2 [demo_row ''TCS'', demo_row ''INFY''])) =
     [TargetHit, StopLossHit]
   \<and> main demo_source datetime_column 3 2 [demo_row ''TCS'', demo_row ''INFY''] =
       Inl TypeError"
  by (simp add: main_def Let_def process_rows_init demo_rows truediv_def
      plotly_chart_periods_def)

text \<open>
  C8. On a sheet without rows the first share of the statistics, line 244, divides by
  the number of rows: \<^verbatim>\<open>main\<close> leaves with ZeroDivisionError and no win rate is
  computed.
\<close>

theorem empty_sheet_division_by_zero:
  "main src conv target_pct sl_pct [] = Inl ZeroDivisionError"
  by (simp add: main_def process_rows_def init_columns_def truediv_def)

text \<open>
  C9. A failure stays in its row. An exception of the price source in the resolver
  gives no price instead of an exception; an exception of the price source in the
  classifier gives the outcome \<open>Error\<close> for that row; a date that cannot be
  converted gives no price in the resolver and the outcome \<open>Error\<close> in the classifier;
  and whatever the source answers, the loop of lines 189-215 ends with a frame that
  holds, for every row of the sheet and in the order of the sheet, the result of that
  row alone, none left at \<open>Processing\<close>.
\<close>

theorem failures_degrade_per_row:
  "(convert_date date = Inr (DateTime d) \<and> add_days d (- 7) = Inr a \<and> add_days d 7 = Inr b
      \<and> src (symbol_formatted symbol) a b = Inl err
    \<longrightarrow> get_stock_price src symbol date = None)
   \<and> (convert_date date = Inr (DateTime d) \<and> add_days d 30 = Inr e
      \<and> src (symbol_formatted symbol) d e = Inl err
    \<longrightarrow> check_target_or_sl_first src symbol date p tp sl = Error err)
   \<and> (convert_date date = Inl err
    \<longrightarrow> get_stock_price src symbol date = None
        \<and> check_target_or_sl_first src symbol date p tp sl = Error err)
   \<and> process_rows src t s (init_columns t s sheet) = map (process_row src t s) sheet
   \<and> map trade_row.truncate (process_rows src t s (init_columns t s sheet)) = sheet
   \<and> Processing \<notin> set (map col_result (process_rows src t s (init_columns t s sheet)))"
proof (intro conjI impI)
  assume "convert_date date = Inr (DateTime d) \<and> add_days d (- 7) = Inr a
    \<and> add_days d 7 = Inr b \<and> src (symbol_formatted symbol) a b = Inl err"
  then show "get_stock_price src symbol date = None"
    by (simp add: get_stock_price_def get_stock_price_body_def history_def)
next
  assume "convert_date date = Inr (DateTime d) \<and> add_days d 30 = Inr e
    \<and> src (symbol_formatted symbol) d e = Inl err"
  then show "check_target_or_sl_first src symbol date p tp sl = Error err"
    by (simp add: check_target_or_sl_first_def history_def)
next
  assume "convert_date date = Inl err"
  then show "get_stock_price src symbol date = None"
    by (simp add: get_stock_price_def get_stock_price_body_def)
next
  assume "convert_date date = Inl err"
  then show "check_target_or_sl_first src symbol date p tp sl = Error err"
    by (simp add: check_target_or_sl_first_def)
next
  show "process_rows src t s (init_columns t s sheet) = map (process_row src t s) sheet"
    by (rule process_rows_init)
next
  show "map trade_row.truncate (process_rows src t s (init_columns t s sheet)) = sheet"
    unfolding process_rows_init by (induction sheet) (simp_all add: truncate_process_row)
next
  show "Processing \<notin> set (map col_result (process_rows src t s (init_columns t s sheet)))"
    unfolding process_rows_init
    using process_row_not_Processing [of src t s] by (auto simp: image_iff) metis
qed

theorem failures_degrade_per_row_witness:
  "get_stock_price demo_source ''XYZ'' (DateTime 738879) = None
   \<and> check_target_or_sl_first demo_source ''WIPRO'' (DateTime 738879) 100 103 98 =
       Error FetchError
   \<and> convert_date (DateStr ''32/01/2024'') = Inl ValueError
   \<and> check_target_or_sl_first demo_source ''TCS'' (DateStr ''32/01/2024'') 100 103 98 =
       Error ValueError
   \<and> map col_result
       (process_rows demo_source 3 2
          (init_columns 3 2
             [demo_row ''TCS'', demo_row ''XYZ'', demo_row ''WIPRO'', bad_date_row,
              demo_row ''INFY''])) =
       [TargetHit, PriceNotFound, Error FetchError, PriceNotFound, StopLossHit]"
proof -
  have 1: "demo_source (symbol_formatted ''XYZ'') 738872 738886 = Inl FetchError"
    by (simp add: demo_source_def symbol_formatted_def endswith_def)
  have 2: "demo_source (symbol_formatted ''WIPRO'') 738879 738909 = Inl FetchError"
    by (simp add: demo_source_def symbol_formatted_def endswith_def)
  have 3: "add_days 738879 (- 7) = Inr 738872" "add_days 738879 7 = Inr 738886"
    "add_days 738879 30 = Inr 738909"
    by (simp_all add: example_simps)
  have 4: "convert_date (DateStr ''32/01/2024'') = Inl ValueError"
    by (simp add: convert_date_def to_datetime_def strptime_def fmt_dmY_slash_def
        fmt_mdY_slash_def fmt_Ymd_dash_def two_chars_def one_char_def space_char_def
        four_digits_def digit_of_def field_def make_date_def days_in_month_def)
  note a = failures_degrade_per_row [where date = "DateTime 738879" and d = 738879
      and a = 738872 and b = 738886 and e = 738909 and src = demo_source
      and symbol = "''XYZ''" and err = FetchError]
  note b = failures_degrade_per_row [where date = "DateTime 738879" and d = 738879
      and a = 738872 and b = 738886 and e = 738909 and src = demo_source
      and symbol = "''WIPRO''" and err = FetchError]
  note c = failures_degrade_per_row [where date = "DateStr ''32/01/2024''"
      and src = demo_source and symbol = "''TCS''" and err = ValueError
      and t = 3 and s = 2
      and sheet = "[demo_row ''TCS'', demo_row ''XYZ'', demo_row ''WIPRO'', bad_date_row,
              demo_row ''INFY'']"]
  have "get_stock_price demo_source ''XYZ'' (DateTime 738879) = None"
    using a 1 3 by (simp add: convert_date_DateTime)
  moreover have "check_target_or_sl_first demo_source ''WIPRO'' (DateTime 738879) 100 103 98 =
      Error FetchError"
    using b 2 3 by (simp add: convert_date_DateTime)
  moreover have "check_target_or_sl_first demo_source ''TCS'' (DateStr ''32/01/2024'')
      100 103 98 = Error ValueError"
    using c 4 by simp
  moreover have "map col_result
       (process_rows demo_source 3 2
          (init_columns 3 2
             [demo_row ''TCS'', demo_row ''XYZ'', demo_row ''WIPRO'', bad_date_row,
              demo_row ''INFY''])) =
       [TargetHit, PriceNotFound, Error FetchError, PriceNotFound, StopLossHit]"
    using c by (simp add: demo_rows)
  ultimately show ?thesis using 4 by simp
qed

text \<open>
  C10. The close_price written to the row is the resolved price rounded to 2 decimal
  places: the float nearest to k / 100, where the integer k is within one half of the
  float product of the price and 100. The outcome of the row is classified with the
  thresholds computed from the resolved price itself. So for some resolved prices
  neither threshold equals the one computed from the recorded close_price: at the
  float 100.00390625, with target 3 and stop-loss 2, the thresholds are
  103.00402343750001 and 98.003828125, and from the recorded 100.0 they are 103 and 98.
\<close>

theorem thresholds_from_unrounded_close:
  "(get_stock_price src (col_symbol row) (col_date row) = Some close_price
    \<longrightarrow> col_close_price (process_row src target_pct sl_pct row) = round2 close_price
        \<and> col_result (process_row src target_pct sl_pct row) =
            check_target_or_sl_first src (col_symbol row) (col_date row) close_price
              (fmul close_price (fadd 1 (fdiv target_pct 100)))
              (fmul close_price (fsub 1 (fdiv sl_pct 100))))
   \<and> (\<exists>k. round2 x = fdiv (of_int k) 100 \<and> \<bar>fmul x 100 - of_int k\<bar> \<le> 1 / 2)
   \<and> (\<exists>price. fl price = price
        \<and> fmul price (fadd 1 (fdiv 3 100)) \<noteq> fmul (round2 price) (fadd 1 (fdiv 3 100))
        \<and> fmul price (fsub 1 (fdiv 2 100)) \<noteq> fmul (round2 price) (fsub 1 (fdiv 2 100)))"
proof (intro conjI impI)
  assume g: "get_stock_price src (col_symbol row) (col_date row) = Some close_price"
  then show "col_close_price (process_row src target_pct sl_pct row) = round2 close_price"
    by (simp add: process_row_def trade_row.extend_def Let_def)
  from g show "col_result (process_row src target_pct sl_pct row) =
      check_target_or_sl_first src (col_symbol row) (col_date row) close_price
        (fmul close_price (fadd 1 (fdiv target_pct 100)))
        (fmul close_price (fsub 1 (fdiv sl_pct 100)))"
    by (simp add: process_row_def trade_row.extend_def Let_def)
next
  have "round2 x = fdiv (of_int (rint (fmul x 100))) 100"
    by (simp add: round2_def)
  moreover have "\<bar>fmul x 100 - of_int (rint (fmul x 100))\<bar> \<le> 1 / 2"
    by (rule rint_error)
  ultimately show "\<exists>k. round2 x = fdiv (of_int k) 100 \<and> \<bar>fmul x 100 - of_int k\<bar> \<le> 1 / 2"
    by blast
next
  have "fl (25601 / 256) = 25601 / 256"
    using fl_near [where x = "25601 / 256" and e = "- 46" and n = "25601 * 2 ^ 38"]
    by simp
  moreover have "fmul (25601 / 256) (fadd 1 (fdiv 3 100)) \<noteq>
      fmul (round2 (25601 / 256)) (fadd 1 (fdiv 3 100))"
    unfolding round2_p target_price_p target_price_100 by simp
  moreover have "fmul (25601 / 256) (fsub 1 (fdiv 2 100)) \<noteq>
      fmul (round2 (25601 / 256)) (fsub 1 (fdiv 2 100))"
    unfolding round2_p sl_price_p sl_price_100 by simp
  ultimately show "\<exists>price. fl price = price
      \<and> fmul price (fadd 1 (fdiv 3 100)) \<noteq> fmul (round2 price) (fadd 1 (fdiv 3 100))
      \<and> fmul price (fsub 1 (fdiv 2 100)) \<noteq> fmul (round2 price) (fsub 1 (fdiv 2 100))"
    by blast
qed

theorem thresholds_from_unrounded_close_witness:
  "get_stock_price rounding_source ''TCS'' (DateTime 738879) = Some (25601 / 256)
   \<and> col_close_price (process_row rounding_source 3 2 (demo_row ''TCS'')) = 100
   \<and> col_result (process_row rounding_source 3 2 (demo_row ''TCS'')) = NeitherHit
   \<and> check_target_or_sl_first rounding_source ''TCS'' (DateTime 738879) 100
       (fmul 100 (fadd 1 (fdiv 3 100))) (fmul 100 (fsub 1 (fdiv 2 100))) = TargetHit"
proof -
  have g: "get_stock_price rounding_source (col_symbol (demo_row ''TCS''))
        (col_date (demo_row ''TCS'')) = Some (25601 / 256)"
    using get_stock_price_rounding by (simp add: demo_row_def)
  have n: "check_target_or_sl_first rounding_source ''TCS'' (DateTime 738879) (25601 / 256)
      (fmul (25601 / 256) (fadd 1 (fdiv 3 100))) (fmul (25601 / 256) (fsub 1 (fdiv 2 100))) =
      NeitherHit"
    unfolding target_price_p sl_price_p
    by (simp add: check_target_or_sl_first_def example_simps rounding_source_def)
  have h: "check_target_or_sl_first rounding_source ''TCS'' (DateTime 738879) 100
       (fmul 100 (fadd 1 (fdiv 3 100))) (fmul 100 (fsub 1 (fdiv 2 100))) = TargetHit"
    unfolding target_price_100 sl_price_100
    by (simp add: check_target_or_sl_first_def example_simps rounding_source_def)
  note T = thresholds_from_unrounded_close [where src = rounding_source
      and row = "demo_row ''TCS''" and close_price = "25601 / 256"
      and target_pct = 3 and sl_pct = 2, THEN conjunct1, rule_format, OF g]
  have c: "col_close_price (process_row rounding_source 3 2 (demo_row ''TCS'')) =
      round2 (25601 / 256)"
    using T by (rule conjunct1)
  have r: "col_result (process_row rounding_source 3 2 (demo_row ''TCS'')) =
      check_target_or_sl_first rounding_source (col_symbol (demo_row ''TCS''))
        (col_date (demo_row ''TCS'')) (25601 / 256)
        (fmul (25601 / 256) (fadd 1 (fdiv 3 100))) (fmul (25601 / 256) (fsub 1 (fdiv 2 100)))"
    using T by (rule conjunct2)
  have r': "col_result (process_row rounding_source 3 2 (demo_row ''TCS'')) = NeitherHit"
    unfolding r using n by (simp add: demo_row_def)
  show ?thesis
    using get_stock_price_rounding c r' h by (simp only: round2_p simp_thms)
qed

end
